theory Spec2Isabelle
  imports Complex_Main "HOL-Library.AList"
begin

section \<open>Python values used by the diet coach\<close>

text \<open>
  The two source files are \<^verbatim>\<open>ai_diet_coach/core.py\<close> (calculations, trend analysis)
  and \<^verbatim>\<open>line_bot/app.py\<close> (the per-message handler inside \<^verbatim>\<open>callback\<close>).

  Conventions of the embedding:
  \<^item> a Python \<^verbatim>\<open>float\<close> is a \<^typ>\<open>real\<close>: arithmetic is exact, there is no rounding to
    binary64, no overflow, no infinity and no NaN. Every concrete input used below
    either is exactly representable in binary64 or stays away from a threshold by many
    orders of magnitude more than a rounding error;
  \<^item> a Python \<^verbatim>\<open>int\<close> is an \<^typ>\<open>int\<close>;
  \<^item> a \<^verbatim>\<open>str\<close> is a \<^typ>\<open>string\<close> of ASCII characters; case mapping and white space
    are those of the ASCII range, bytes above 127 are passed through unchanged;
  \<^item> a naive \<^verbatim>\<open>datetime\<close> is the number of microseconds since the epoch, so that
    \<^verbatim>\<open>(a - b).days\<close> is the floor of the difference divided by one day;
  \<^item> an exception is a value of \<open>py_error\<close>, returned on the left of a sum;
  \<^item> the Japanese message texts are constructors of datatypes, one per message.
\<close>

datatype py_error = ValueError | IndexError | KeyError | TypeError | AttributeError | ZeroDivisionError

text \<open>\<^verbatim>\<open>str.lower()\<close> on ASCII.\<close>

definition lower_char :: "char \<Rightarrow> char" where
  "lower_char c =
     (case map_of (zip ''ABCDEFGHIJKLMNOPQRSTUVWXYZ'' ''abcdefghijklmnopqrstuvwxyz'') c of
        Some d \<Rightarrow> d
      | None \<Rightarrow> c)"

definition lower :: "string \<Rightarrow> string" where
  "lower s = map lower_char s"

text \<open>
  \<^verbatim>\<open>round(x)\<close> with one argument returns an integer and rounds a tie to the even
  neighbour; \<^verbatim>\<open>round(x, 2)\<close> does the same at the second decimal.
\<close>

definition py_round :: "real \<Rightarrow> int" where
  "py_round x =
     (let f = \<lfloor>x\<rfloor>; d = x - of_int f in
      if d < 1 / 2 then f
      else if 1 / 2 < d then f + 1
      else if even f then f
      else f + 1)"

definition py_round2 :: "real \<Rightarrow> real" where
  "py_round2 x = of_int (py_round (x * 100)) / 100"

section \<open>core.py: calculations\<close>

text \<open>
  \<^verbatim>\<open>
  def calculate_bmr(sex, *, weight_kg, height_cm, age):
      s = (sex or "").lower()
      if s not in {"male", "female"}:
          raise ValueError("sex must be 'male' or 'female'")
      base = 10 * float(weight_kg) + 6.25 * float(height_cm) - 5 * int(age)
      base += 5 if s == "male" else -161
      return round(base, 2)
  \<close>
  The arguments are taken in the order of the specification's \<^verbatim>\<open>computeBMR\<close>:
  sex, weight, height, age.
\<close>

definition calculate_bmr :: "string \<Rightarrow> real \<Rightarrow> real \<Rightarrow> int \<Rightarrow> py_error + real" where
  "calculate_bmr sex weight_kg height_cm age =
     (let s = lower sex in
      if s \<noteq> ''male'' \<and> s \<noteq> ''female'' then Inl ValueError
      else
        let base = 10 * weight_kg + 6.25 * height_cm - 5 * of_int age;
            base = base + (if s = ''male'' then 5 else - 161)
        in Inr (py_round2 base))"

definition activity_factor :: "string \<Rightarrow> py_error + real" where
  "activity_factor activity =
     (case map_of
        [(''sedentary'', 1.2), (''light'', 1.375), (''moderate'', 1.55),
         (''active'', 1.725), (''very_active'', 1.9)] activity of
        None \<Rightarrow> Inl ValueError
      | Some f \<Rightarrow> Inr f)"

definition calculate_tdee :: "real \<Rightarrow> string \<Rightarrow> py_error + real" where
  "calculate_tdee bmr activity =
     (case activity_factor activity of
        Inl e \<Rightarrow> Inl e
      | Inr f \<Rightarrow> Inr (py_round2 (bmr * f)))"

text \<open>The only note \<^verbatim>\<open>build_plan\<close> can append: the advisory about the safety cap.\<close>

datatype plan_note = SafetyCapNote

record plan =
  bmr :: real
  tdee :: real
  maintenance_kcal :: int
  target_kcal :: int
  delta_kcal :: int
  plan_mode :: string
  protein_g :: int
  fat_g :: int
  carb_g :: int
  plan_notes :: "plan_note list"

text \<open>
  The daily delta that \<^verbatim>\<open>build_plan\<close> derives from goal weight and deadline, its
  clamped value, and the test that appends the note:
  \<^verbatim>\<open>
      delta_kg = goal_weight - weight_kg
      raw_daily = (delta_kg * 7700.0) / deadline_days
      daily_change = max(min(raw_daily, 500.0), -750.0)
      delta_kcal = daily_change
      if abs(raw_daily - daily_change) > 1e-6:
          notes.append(...)
  \<close>
\<close>

definition raw_daily :: "real \<Rightarrow> real \<Rightarrow> int \<Rightarrow> real" where
  "raw_daily goal_weight weight_kg deadline_days =
     ((goal_weight - weight_kg) * 7700) / of_int deadline_days"

definition cap_daily :: "real \<Rightarrow> real" where
  "cap_daily raw = max (min raw 500) (- 750)"

definition deadline_delta :: "real \<Rightarrow> real option \<Rightarrow> int option \<Rightarrow> real \<times> plan_note list" where
  "deadline_delta weight_kg goal_weight deadline_days =
     (case (goal_weight, deadline_days) of
        (Some g, Some d) \<Rightarrow>
          if 0 < d then
            let raw = raw_daily g weight_kg d; daily_change = cap_daily raw
            in (daily_change,
                if 1 / 1000000 < \<bar>raw - daily_change\<bar> then [SafetyCapNote] else [])
          else (0, [])
      | _ \<Rightarrow> (0, []))"

text \<open>
  \<^verbatim>\<open>
      if delta_kcal == 0.0:
          if mode_calc == "cut": delta_kcal = -500.0
          elif mode_calc == "bulk": delta_kcal = +300.0
          else: delta_kcal = 0.0
  \<close>
\<close>

definition mode_preset :: "string \<Rightarrow> real \<Rightarrow> real" where
  "mode_preset mode_calc delta =
     (if delta = 0 then
        (if mode_calc = ''cut'' then - 500 else if mode_calc = ''bulk'' then 300 else 0)
      else delta)"

definition build_plan ::
  "string \<Rightarrow> int \<Rightarrow> real \<Rightarrow> real \<Rightarrow> string \<Rightarrow> string \<Rightarrow> real option \<Rightarrow> int option
     \<Rightarrow> py_error + plan" where
  "build_plan sex age height_cm weight_kg activity mode goal_weight deadline_days =
     (case calculate_bmr sex weight_kg height_cm age of
        Inl e \<Rightarrow> Inl e
      | Inr b \<Rightarrow>
        (case calculate_tdee b activity of
           Inl e \<Rightarrow> Inl e
         | Inr t \<Rightarrow>
           let mode_calc = lower (if mode = [] then ''recomp'' else mode);
               (d0, ns) = deadline_delta weight_kg goal_weight deadline_days;
               delta = mode_preset mode_calc d0;
               target = max (py_round (t + delta)) 1200;
               maintenance = py_round t;
               protein = max (2.0 * weight_kg) (1.6 * weight_kg);
               fat = max (0.6 * weight_kg) 40;
               remaining = max (of_int target - (protein * 4 + fat * 9)) 100;
               carb = remaining / 4
           in Inr \<lparr>bmr = b, tdee = t, maintenance_kcal = maintenance,
                    target_kcal = target, delta_kcal = py_round delta,
                    plan_mode = mode_calc, protein_g = py_round protein,
                    fat_g = py_round fat, carb_g = py_round carb, plan_notes = ns\<rparr>))"

section \<open>core.py: weight logging, suggestions and history summary\<close>

text \<open>
  A history entry is the dictionary \<^verbatim>\<open>{"date": datetime, "weight": number}\<close>. The date is
  in microseconds; \<open>days_between a b\<close> is \<^verbatim>\<open>(a - b).days\<close>, which Python normalises to
  the floor of the difference in days (it is negative when \<open>a\<close> is before \<open>b\<close>).
\<close>

record entry =
  date :: int
  weight :: real

definition day_us :: int where
  "day_us = 86400000000"

definition days_between :: "int \<Rightarrow> int \<Rightarrow> int" where
  "days_between a b = (a - b) div day_us"

text \<open>
  The slice \<^verbatim>\<open>history[-recent_window:]\<close>: a negative start counts from the end and stops
  at the first element, a start beyond the end gives the empty list. With
  \<open>recent_window = 0\<close> the start is \<open>0\<close> and the slice is the whole list.
\<close>

definition last_entries :: "'a list \<Rightarrow> int \<Rightarrow> 'a list" where
  "last_entries history recent_window =
     (let len = int (length history); start = - recent_window;
          i = (if start < 0 then max (len + start) 0 else min start len)
      in drop (nat i) history)"

text \<open>The nine guidance texts of \<^verbatim>\<open>suggest_after_log\<close>, in the order of the source.\<close>

datatype suggestion =
  StartLogging
  | CutTooFast | CutGaining | CutGoodPace
  | BulkTooFast | BulkHardToGain | BulkGoodPace
  | RecompMaintaining | RecompFluctuation

text \<open>
  \<^verbatim>\<open>
      last = history[-recent_window:]
      if len(last) >= 2:
          delta = last[-1]["weight"] - last[0]["weight"]
          days = (last[-1]["date"] - last[0]["date"]).days or 1
          daily_change = delta / days
      else:
          daily_change = 0.0
  \<close>
\<close>

definition daily_change_of :: "entry list \<Rightarrow> real" where
  "daily_change_of l =
     (if 2 \<le> length l then
        let delta = weight (last l) - weight (hd l);
            d = days_between (date (last l)) (date (hd l));
            days = (if d = 0 then 1 else d)
        in delta / of_int days
      else 0)"

definition suggest_after_log :: "entry list \<Rightarrow> string \<Rightarrow> int \<Rightarrow> suggestion" where
  "suggest_after_log history mode recent_window =
     (if history = [] then StartLogging
      else
        let m = lower (if mode = [] then ''recomp'' else mode);
            daily_change = daily_change_of (last_entries history recent_window)
        in if m = ''cut'' then
             (if daily_change < - 0.15 then CutTooFast
              else if 0.05 < daily_change then CutGaining
              else CutGoodPace)
           else if m = ''bulk'' then
             (if 0.25 < daily_change then BulkTooFast
              else if daily_change < 0.05 then BulkHardToGain
              else BulkGoodPace)
           else
             (if \<bar>daily_change\<bar> < 0.05 then RecompMaintaining
              else RecompFluctuation))"

text \<open>
  \<^verbatim>\<open>summarise_history\<close> returns either \<^verbatim>\<open>{"count": 0}\<close> or the full dictionary. The dates
  \<^verbatim>\<open>from\<close> and \<^verbatim>\<open>to\<close> are date-only: the day number of the timestamp.
\<close>

datatype trend = Down | Up | Flat

record summary =
  count :: nat
  from_day :: int
  to_day :: int
  start_weight :: real
  end_weight :: real
  avg :: real
  delta :: real
  trend :: trend

datatype summary_result = CountZero | Summary summary

definition summarise_history :: "entry list \<Rightarrow> int \<Rightarrow> summary_result" where
  "summarise_history history days =
     (if history = [] then CountZero
      else
        let cutoff = date (last history);
            window = filter (\<lambda>x. days_between cutoff (date x) \<le> days) history
        in if window = [] then CountZero
           else
             let weights = map weight window;
                 d = last weights - hd weights;
                 a = py_round2 (sum_list weights / of_nat (length weights));
                 tr = (if d < - 0.3 then Down else if 0.3 < d then Up else Flat)
             in Summary \<lparr>count = length window,
                  from_day = date (hd window) div day_us,
                  to_day = date (last window) div day_us,
                  start_weight = py_round2 (hd weights),
                  end_weight = py_round2 (last weights),
                  avg = a, delta = py_round2 d, trend = tr\<rparr>)"

section \<open>core.py: profile helpers\<close>

text \<open>
  \<^verbatim>\<open>
  def progress_bar(done, total, width=10):
      done = max(0, min(done, total))
      filled = math.floor(width * done / total) if total else 0
      return "[" + "#" * filled + "-" * (width - filled) + f"] {done}/{total}"
  \<close>
  (the source draws the cells and brackets with non-ASCII characters). The division is
  Python's true division, which raises on a zero divisor; a string repeated a negative
  number of times is empty.
\<close>

definition py_truediv :: "int \<Rightarrow> int \<Rightarrow> py_error + real" where
  "py_truediv a b = (if b = 0 then Inl ZeroDivisionError else Inr (of_int a / of_int b))"

datatype cell = Filled | Blank

record bar =
  cells :: "cell list"
  shown_done :: int
  shown_total :: int

definition filled_cells :: "int \<Rightarrow> int \<Rightarrow> int \<Rightarrow> py_error + int" where
  "filled_cells width done_count total_count =
     (if total_count \<noteq> 0 then
        (case py_truediv (width * done_count) total_count of
           Inl e \<Rightarrow> Inl e
         | Inr q \<Rightarrow> Inr \<lfloor>q\<rfloor>)
      else Inr 0)"

definition progress_bar :: "int \<Rightarrow> int \<Rightarrow> int \<Rightarrow> py_error + bar" where
  "progress_bar done_count total_count width =
     (let done_count = max 0 (min done_count total_count) in
      case filled_cells width done_count total_count of
        Inl e \<Rightarrow> Inl e
      | Inr filled \<Rightarrow>
          Inr \<lparr>cells = replicate (nat filled) Filled @ replicate (nat (width - filled)) Blank,
               shown_done = done_count, shown_total = total_count\<rparr>)"

section \<open>Python strings and number parsing\<close>

text \<open>
  \<^verbatim>\<open>str.strip()\<close> and \<^verbatim>\<open>str.split()\<close> remove the characters for which \<^verbatim>\<open>str.isspace()\<close>
  holds; in the ASCII range these are the codes 9 to 13, 28 to 31 and 32. \<^verbatim>\<open>int(s)\<close> and
  \<^verbatim>\<open>float(s)\<close> strip only 9 to 13 and 32.
\<close>

definition is_space :: "char \<Rightarrow> bool" where
  "is_space c \<longleftrightarrow>
     c \<in> set [CHR 0x09, CHR 0x0A, CHR 0x0B, CHR 0x0C, CHR 0x0D,
               CHR 0x1C, CHR 0x1D, CHR 0x1E, CHR 0x1F, CHR 0x20]"

definition is_num_space :: "char \<Rightarrow> bool" where
  "is_num_space c \<longleftrightarrow>
     c \<in> set [CHR 0x09, CHR 0x0A, CHR 0x0B, CHR 0x0C, CHR 0x0D, CHR 0x20]"

definition strip_with :: "(char \<Rightarrow> bool) \<Rightarrow> string \<Rightarrow> string" where
  "strip_with sp s = rev (dropWhile sp (rev (dropWhile sp s)))"

definition strip :: "string \<Rightarrow> string" where
  "strip s = strip_with is_space s"

text \<open>\<^verbatim>\<open>s.split()\<close>: the maximal runs of characters that are not white space.\<close>

fun split_acc :: "string \<Rightarrow> string \<Rightarrow> string list" where
  "split_acc cur [] = (if cur = [] then [] else [rev cur])"
| "split_acc cur (c # cs) =
     (if is_space c then (if cur = [] then split_acc [] cs else rev cur # split_acc [] cs)
      else split_acc (c # cur) cs)"

definition split :: "string \<Rightarrow> string list" where
  "split s = split_acc [] s"

definition startswith :: "string \<Rightarrow> string \<Rightarrow> bool" where
  "startswith s p \<longleftrightarrow> take (length p) s = p"

text \<open>
  Indexing a list, \<^verbatim>\<open>xs[i]\<close>: a negative index counts from the end, an index out of
  range raises \<^verbatim>\<open>IndexError\<close>.
\<close>

definition py_index :: "'a list \<Rightarrow> int \<Rightarrow> py_error + 'a" where
  "py_index xs i =
     (let n = int (length xs); j = (if i < 0 then i + n else i)
      in if j < 0 \<or> n \<le> j then Inl IndexError else Inr (xs ! nat j))"

text \<open>
  A group of decimal digits as \<^verbatim>\<open>int\<close> and \<^verbatim>\<open>float\<close> read it: it starts and ends with
  a digit, and single underscores may stand between digits.
\<close>

definition digit_val :: "char \<Rightarrow> nat option" where
  "digit_val c = map_of (zip ''0123456789'' [0, 1, 2, 3, 4, 5, 6, 7, 8, 9]) c"

fun digits_acc :: "nat \<Rightarrow> string \<Rightarrow> nat option" where
  "digits_acc n [] = Some n"
| "digits_acc n [c] = (case digit_val c of None \<Rightarrow> None | Some v \<Rightarrow> Some (10 * n + v))"
| "digits_acc n (c # d # ds) =
     (if c = CHR ''_'' then
        (case digit_val d of None \<Rightarrow> None | Some v \<Rightarrow> digits_acc (10 * n + v) ds)
      else
        (case digit_val c of None \<Rightarrow> None | Some v \<Rightarrow> digits_acc (10 * n + v) (d # ds)))"

definition parse_digits :: "string \<Rightarrow> nat option" where
  "parse_digits s =
     (case s of
        [] \<Rightarrow> None
      | c # cs \<Rightarrow> (case digit_val c of None \<Rightarrow> None | Some v \<Rightarrow> digits_acc v cs))"

text \<open>An optional sign in front of what \<open>body\<close> reads.\<close>

definition signed :: "(string \<Rightarrow> 'a option) \<Rightarrow> ('a \<Rightarrow> 'a) \<Rightarrow> string \<Rightarrow> 'a option" where
  "signed body neg s =
     (case s of
        [] \<Rightarrow> None
      | c # cs \<Rightarrow>
          if c = CHR ''-'' then map_option neg (body cs)
          else if c = CHR ''+'' then body cs
          else body s)"

text \<open>\<^verbatim>\<open>int(s)\<close> on a string, base 10; \<open>None\<close> stands for the \<^verbatim>\<open>ValueError\<close>.\<close>

definition py_int :: "string \<Rightarrow> int option" where
  "py_int s = signed (\<lambda>t. map_option int (parse_digits t)) uminus (strip_with is_num_space s)"

text \<open>
  \<^verbatim>\<open>float(s)\<close> on a string: an optional sign, then \<^verbatim>\<open>inf\<close>, \<^verbatim>\<open>infinity\<close> or \<^verbatim>\<open>nan\<close> in any
  letter case, or a decimal numeral: digits with an optional fraction (one of the two
  sides of the point may be empty) and an optional exponent. The special values have no
  counterpart among the reals: they are reported as \<open>FloatSpecial\<close>, and the handler
  below leaves the model on them.
\<close>

datatype float_parse = FloatError | FloatSpecial | FloatValue real

definition parse_exponent :: "string \<Rightarrow> int option" where
  "parse_exponent s = signed (\<lambda>t. map_option int (parse_digits t)) uminus s"

definition parse_mantissa :: "string \<Rightarrow> real option" where
  "parse_mantissa s =
     (let ip = takeWhile (\<lambda>c. c \<noteq> CHR ''.'') s;
          rest = dropWhile (\<lambda>c. c \<noteq> CHR ''.'') s
      in if rest = [] then map_option of_nat (parse_digits ip)
         else
           let fp = tl rest;
               scale = 10 ^ length (filter (\<lambda>c. c \<noteq> CHR ''_'') fp)
           in if ip = [] then map_option (\<lambda>f. of_nat f / scale) (parse_digits fp)
              else if fp = [] then map_option of_nat (parse_digits ip)
              else
                (case (parse_digits ip, parse_digits fp) of
                   (Some i, Some f) \<Rightarrow> Some (of_nat i + of_nat f / scale)
                 | _ \<Rightarrow> None))"

definition parse_decimal :: "string \<Rightarrow> real option" where
  "parse_decimal s =
     (let is_e = (\<lambda>c. c = CHR ''e'' \<or> c = CHR ''E'');
          m = takeWhile (\<lambda>c. \<not> is_e c) s;
          rest = dropWhile (\<lambda>c. \<not> is_e c) s
      in if rest = [] then parse_mantissa m
         else
           (case (parse_mantissa m, parse_exponent (tl rest)) of
              (Some x, Some e) \<Rightarrow> Some (if 0 \<le> e then x * 10 ^ nat e else x / 10 ^ nat (- e))
            | _ \<Rightarrow> None))"

definition py_float :: "string \<Rightarrow> float_parse" where
  "py_float s =
     (let t = strip_with is_num_space s;
          u = (case t of [] \<Rightarrow> [] | c # cs \<Rightarrow> if c = CHR ''-'' \<or> c = CHR ''+'' then cs else t)
      in if lower u = ''inf'' \<or> lower u = ''infinity'' \<or> lower u = ''nan'' then FloatSpecial
         else
           (case signed parse_decimal uminus t of
              None \<Rightarrow> FloatError
            | Some x \<Rightarrow> FloatValue x))"

section \<open>app.py: session, replies and the message handler\<close>

text \<open>
  The values the handler stores in the profile dictionary: \<^verbatim>\<open>None\<close>, an \<^verbatim>\<open>int\<close>, a
  \<^verbatim>\<open>float\<close> or a \<^verbatim>\<open>str\<close>. A dictionary is an association list in insertion order;
  \<^verbatim>\<open>d[k] = v\<close> replaces the value of an existing key in place and appends a new key at the
  end, as \<open>AList.update\<close> does.
\<close>

datatype pval = VNone | VInt int | VFloat real | VStr string

type_synonym pydict = "(string \<times> pval) list"

datatype stage = Idle | Onboarding

record session =
  profile :: pydict
  history :: "entry list"
  stage :: stage
  onboard_idx :: int

text \<open>The state of \<^verbatim>\<open>load_state\<close> for an unknown user, and of \<^verbatim>\<open>reset\<close>.\<close>

definition fresh_session :: session where
  "fresh_session = \<lparr>profile = [], history = [], stage = Idle, onboard_idx = 0\<rparr>"

text \<open>\<^verbatim>\<open>ONBOARD_KEYS\<close>; a question is named by the key it asks for.\<close>

definition ONBOARD_KEYS :: "string list" where
  "ONBOARD_KEYS =
     [''sex'', ''age'', ''height_cm'', ''weight_kg'', ''activity'', ''mode'',
      ''goal_weight'', ''deadline_days'']"

text \<open>
  What a computation of the handler ends with: an exception, a value, or a float that
  the real numbers do not have (infinity, NaN), on which the model stops.
\<close>

datatype 'a res = Raises py_error | Unmodelled | Returns 'a

definition res_bind :: "'a res \<Rightarrow> ('a \<Rightarrow> 'b res) \<Rightarrow> 'b res" where
  "res_bind m f = (case m of Raises e \<Rightarrow> Raises e | Unmodelled \<Rightarrow> Unmodelled | Returns x \<Rightarrow> f x)"

definition of_sum :: "py_error + 'a \<Rightarrow> 'a res" where
  "of_sum r = (case r of Inl e \<Rightarrow> Raises e | Inr x \<Rightarrow> Returns x)"

text \<open>\<^verbatim>\<open>validate_profile\<close> of core.py.\<close>

definition validate_profile :: "pydict \<Rightarrow> py_error + unit" where
  "validate_profile p =
     (let required = [''sex'', ''age'', ''height_cm'', ''weight_kg'', ''activity'', ''mode''];
          missing = filter (\<lambda>k. map_of p k = None) required
      in if missing \<noteq> [] then Inl ValueError else Inr ())"

text \<open>
  \<^verbatim>\<open>int(v)\<close> and \<^verbatim>\<open>float(v)\<close> on a stored value, \<^verbatim>\<open>d[k]\<close> on a dictionary, and
  \<^verbatim>\<open>(v or default)\<close> followed by a string method, which raises \<^verbatim>\<open>AttributeError\<close> on a
  number other than zero.
\<close>

definition py_int_of :: "pval \<Rightarrow> int res" where
  "py_int_of v =
     (case v of
        VNone \<Rightarrow> Raises TypeError
      | VInt i \<Rightarrow> Returns i
      | VFloat r \<Rightarrow> Returns (if 0 \<le> r then \<lfloor>r\<rfloor> else \<lceil>r\<rceil>)
      | VStr s \<Rightarrow> (case py_int s of None \<Rightarrow> Raises ValueError | Some i \<Rightarrow> Returns i))"

definition float_res :: "float_parse \<Rightarrow> real res" where
  "float_res f =
     (case f of
        FloatError \<Rightarrow> Raises ValueError
      | FloatSpecial \<Rightarrow> Unmodelled
      | FloatValue x \<Rightarrow> Returns x)"

definition py_float_of :: "pval \<Rightarrow> real res" where
  "py_float_of v =
     (case v of
        VNone \<Rightarrow> Raises TypeError
      | VInt i \<Rightarrow> Returns (of_int i)
      | VFloat r \<Rightarrow> Returns r
      | VStr s \<Rightarrow> float_res (py_float s))"

definition lookup :: "pydict \<Rightarrow> string \<Rightarrow> pval res" where
  "lookup d k = (case map_of d k of None \<Rightarrow> Raises KeyError | Some v \<Rightarrow> Returns v)"

definition str_or :: "pval \<Rightarrow> string \<Rightarrow> string res" where
  "str_or v dflt =
     (case v of
        VNone \<Rightarrow> Returns dflt
      | VInt i \<Rightarrow> if i = 0 then Returns dflt else Raises AttributeError
      | VFloat r \<Rightarrow> if r = 0 then Returns dflt else Raises AttributeError
      | VStr s \<Rightarrow> Returns (if s = [] then dflt else s))"

text \<open>
  \<^verbatim>\<open>
  def format_plan(profile):
      goal_w = profile.get("goal_weight")
      deadline = profile.get("deadline_days")
      plan = build_plan(
          profile["sex"], int(profile["age"]), float(profile["height_cm"]),
          float(profile["weight_kg"]), profile["activity"], profile["mode"],
          float(goal_w) if goal_w not in (None, "", "skip") else None,
          int(deadline) if deadline not in (None, "", "skip") else None)
      ...
  \<close>
  The result is the plan that the text is rendered from. \<^verbatim>\<open>build_plan\<close> takes strings
  here, so the three values it uses as strings are converted first; an activity that is
  not a string is in no table and raises \<^verbatim>\<open>ValueError\<close>.
\<close>

definition given :: "pval option \<Rightarrow> pval option" where
  "given v =
     (case v of
        None \<Rightarrow> None
      | Some VNone \<Rightarrow> None
      | Some (VStr s) \<Rightarrow> if s = [] \<or> s = ''skip'' then None else Some (VStr s)
      | Some w \<Rightarrow> Some w)"

definition optional :: "(pval \<Rightarrow> 'a res) \<Rightarrow> pval option \<Rightarrow> 'a option res" where
  "optional conv v =
     (case given v of
        None \<Rightarrow> Returns None
      | Some w \<Rightarrow> res_bind (conv w) (\<lambda>x. Returns (Some x)))"

definition format_plan :: "pydict \<Rightarrow> plan res" where
  "format_plan p =
     res_bind (lookup p ''sex'') (\<lambda>sex.
     res_bind (res_bind (lookup p ''age'') py_int_of) (\<lambda>age.
     res_bind (res_bind (lookup p ''height_cm'') py_float_of) (\<lambda>height_cm.
     res_bind (res_bind (lookup p ''weight_kg'') py_float_of) (\<lambda>weight_kg.
     res_bind (lookup p ''activity'') (\<lambda>activity.
     res_bind (lookup p ''mode'') (\<lambda>mode.
     res_bind (optional py_float_of (map_of p ''goal_weight'')) (\<lambda>goal_weight.
     res_bind (optional py_int_of (map_of p ''deadline_days'')) (\<lambda>deadline_days.
     res_bind (str_or sex []) (\<lambda>sex_s.
     res_bind (case activity of VStr a \<Rightarrow> Returns a | _ \<Rightarrow> Raises ValueError) (\<lambda>activity_s.
     res_bind (str_or mode ''recomp'') (\<lambda>mode_s.
       of_sum (build_plan sex_s age height_cm weight_kg activity_s mode_s
                 goal_weight deadline_days))))))))))))"

text \<open>The three texts of \<^verbatim>\<open>guide_text\<close>.\<close>

datatype guide = GuideCut | GuideBulk | GuideRecomp

definition guide_text :: "pval \<Rightarrow> guide res" where
  "guide_text mode =
     res_bind (str_or mode ''recomp'') (\<lambda>s.
       let m = lower s in
       Returns (if m = ''cut'' then GuideCut else if m = ''bulk'' then GuideBulk else GuideRecomp))"

text \<open>
  The replies of the handler, one constructor per message text, with the data the text
  is filled from.
\<close>

datatype reply =
  HelpText
  | ResetDone
  | OnboardingStarted bar string
  | PlanText plan
  | ProfileIncomplete
  | Logged real suggestion
  | LogFailed
  | NoHistory
  | HistorySummary summary_result summary_result
  | GuideNeedsProfile
  | GuideText guide
  | ProfileShown pydict
  | ProfileUpdated string pval
  | ProfileUsage
  | RepromptSex
  | RepromptActivity
  | RepromptMode
  | OnboardingComplete bar plan
  | OnboardingIncomplete
  | NextQuestion bar string
  | CommandNotFound

text \<open>
  The handler returns the session as it is in memory after the message, whether
  \<^verbatim>\<open>save_state\<close> wrote it, and the reply. When an exception leaves the handler nothing
  is replied, and what was not saved is lost with the request.
\<close>

type_synonym outcome = "(session \<times> bool \<times> reply) res"

text \<open>The Japanese command words, as UTF-8 bytes: help, reset, start.\<close>

definition help_ja :: string where
  "help_ja = [CHR 0xE3, CHR 0x83, CHR 0x98, CHR 0xE3, CHR 0x83, CHR 0xAB, CHR 0xE3, CHR 0x83, CHR 0x97]"

definition reset_ja :: string where
  "reset_ja = [CHR 0xE3, CHR 0x83, CHR 0xAA, CHR 0xE3, CHR 0x82, CHR 0xBB,
               CHR 0xE3, CHR 0x83, CHR 0x83, CHR 0xE3, CHR 0x83, CHR 0x88]"

definition start_ja :: string where
  "start_ja = [CHR 0xE9, CHR 0x96, CHR 0x8B, CHR 0xE5, CHR 0xA7, CHR 0x8B]"

text \<open>
  \<^verbatim>\<open>
      if low == "plan":
          try:
              validate_profile(profile)
              reply(ev.reply_token, format_plan(profile))
          except Exception as e:
              reply(ev.reply_token, f"... {e} ...")
  \<close>
\<close>

definition handle_plan :: "session \<Rightarrow> outcome" where
  "handle_plan s =
     (case validate_profile (profile s) of
        Inl e \<Rightarrow> Returns (s, False, ProfileIncomplete)
      | Inr u \<Rightarrow>
          (case format_plan (profile s) of
             Raises e \<Rightarrow> Returns (s, False, ProfileIncomplete)
           | Unmodelled \<Rightarrow> Unmodelled
           | Returns pl \<Rightarrow> Returns (s, False, PlanText pl)))"

text \<open>
  \<^verbatim>\<open>
      if low.startswith("log "):
          try:
              w = float(low.split()[1])
              state["history"] = state.get("history", [])
              state["history"].append({"date": datetime.now(), "weight": round(w, 2)})
              save_state(uid, state)
              ...
              s = suggest_after_log(simple_hist, profile.get("mode", "recomp"))
              reply(ev.reply_token, f"... {w} kg\n{s}")
          except Exception as e:
              reply(ev.reply_token, f"... {e} ...")
  \<close>
\<close>

definition handle_log :: "int \<Rightarrow> session \<Rightarrow> string \<Rightarrow> outcome" where
  "handle_log now s low =
     (case res_bind (of_sum (py_index (split low) 1)) (\<lambda>tok. float_res (py_float tok)) of
        Raises e \<Rightarrow> Returns (s, False, LogFailed)
      | Unmodelled \<Rightarrow> Unmodelled
      | Returns w \<Rightarrow>
          let s1 = s\<lparr>history := history s @ [\<lparr>date = now, weight = py_round2 w\<rparr>]\<rparr>;
              mode = (case map_of (profile s) ''mode'' of
                        None \<Rightarrow> Returns ''recomp''
                      | Some v \<Rightarrow> str_or v ''recomp'')
          in (case mode of
                Raises e \<Rightarrow> Returns (s1, True, LogFailed)
              | Unmodelled \<Rightarrow> Unmodelled
              | Returns m \<Rightarrow> Returns (s1, True, Logged w (suggest_after_log (history s1) m 7))))"

definition handle_history :: "session \<Rightarrow> outcome" where
  "handle_history s =
     (if history s = [] then Returns (s, False, NoHistory)
      else Returns (s, False,
        HistorySummary (summarise_history (history s) 7) (summarise_history (history s) 30)))"

text \<open>
  \<^verbatim>\<open>
      if low == "guide":
          if not profile.get("mode"):
              reply(ev.reply_token, ...)
          else:
              reply(ev.reply_token, guide_text(profile.get("mode")))
  \<close>
  The call of \<^verbatim>\<open>guide_text\<close> is not inside a \<^verbatim>\<open>try\<close>.
\<close>

definition falsy :: "pval option \<Rightarrow> bool" where
  "falsy v =
     (case v of
        None \<Rightarrow> True
      | Some VNone \<Rightarrow> True
      | Some (VInt i) \<Rightarrow> i = 0
      | Some (VFloat r) \<Rightarrow> r = 0
      | Some (VStr t) \<Rightarrow> t = [])"

definition handle_guide :: "session \<Rightarrow> outcome" where
  "handle_guide s =
     (if falsy (map_of (profile s) ''mode'') then Returns (s, False, GuideNeedsProfile)
      else
        (case map_of (profile s) ''mode'' of
           None \<Rightarrow> Returns (s, False, GuideNeedsProfile)
         | Some v \<Rightarrow> res_bind (guide_text v) (\<lambda>g. Returns (s, False, GuideText g))))"

text \<open>
  \<^verbatim>\<open>
      if low.startswith("profile set "):
          parts = text.split()
          try:
              key, value = parts[2], parts[3]
              if key in {"age"}: value = int(value)
              elif key in {"height_cm", "weight_kg", "goal_weight"}: value = float(value)
              state["profile"][key] = value
              save_state(uid, state)
              reply(ev.reply_token, f"... {key} = {value}")
          except Exception as e:
              reply(ev.reply_token, "... profile set activity active ...")
  \<close>
\<close>

definition coerce :: "string \<Rightarrow> string \<Rightarrow> pval res" where
  "coerce key val =
     (if key = ''age'' then
        (case py_int val of None \<Rightarrow> Raises ValueError | Some i \<Rightarrow> Returns (VInt i))
      else if key = ''height_cm'' \<or> key = ''weight_kg'' \<or> key = ''goal_weight'' then
        res_bind (float_res (py_float val)) (\<lambda>x. Returns (VFloat x))
      else Returns (VStr val))"

definition handle_profile_set :: "session \<Rightarrow> string \<Rightarrow> outcome" where
  "handle_profile_set s text =
     (let parts = split text in
      case res_bind (of_sum (py_index parts 2)) (\<lambda>key.
           res_bind (of_sum (py_index parts 3)) (\<lambda>val.
           res_bind (coerce key val) (\<lambda>v. Returns (key, v)))) of
        Raises e \<Rightarrow> Returns (s, False, ProfileUsage)
      | Unmodelled \<Rightarrow> Unmodelled
      | Returns (key, v) \<Rightarrow>
          Returns (s\<lparr>profile := AList.update key v (profile s)\<rparr>, True, ProfileUpdated key v))"

text \<open>
  The onboarding answer: the chain \<^verbatim>\<open>if key == "sex": ... elif key == "age": ...\<close> of the
  source. An answer is rejected with a new prompt, or raises, or is stored.
\<close>

datatype answer = Rejected reply | Stored pval | NotStored

definition parse_answer :: "string \<Rightarrow> string \<Rightarrow> answer res" where
  "parse_answer key val =
     (if key = ''sex'' then
        (if lower val \<noteq> ''male'' \<and> lower val \<noteq> ''female'' then Returns (Rejected RepromptSex)
         else Returns (Stored (VStr (lower val))))
      else if key = ''age'' then
        (case py_int val of None \<Rightarrow> Raises ValueError | Some i \<Rightarrow> Returns (Stored (VInt i)))
      else if key = ''height_cm'' then
        res_bind (float_res (py_float val)) (\<lambda>x. Returns (Stored (VFloat x)))
      else if key = ''weight_kg'' then
        res_bind (float_res (py_float val)) (\<lambda>x. Returns (Stored (VFloat x)))
      else if key = ''activity'' then
        (if val \<notin> set [''sedentary'', ''light'', ''moderate'', ''active'', ''very_active'']
         then Returns (Rejected RepromptActivity)
         else Returns (Stored (VStr val)))
      else if key = ''mode'' then
        (if lower val \<noteq> ''cut'' \<and> lower val \<noteq> ''recomp'' \<and> lower val \<noteq> ''bulk''
         then Returns (Rejected RepromptMode)
         else Returns (Stored (VStr (lower val))))
      else if key = ''goal_weight'' then
        (if lower val = ''skip'' then Returns (Stored VNone)
         else res_bind (float_res (py_float val)) (\<lambda>x. Returns (Stored (VFloat x))))
      else if key = ''deadline_days'' then
        (if lower val = ''skip'' then Returns (Stored VNone)
         else (case py_int val of None \<Rightarrow> Raises ValueError | Some i \<Rightarrow> Returns (Stored (VInt i))))
      else Returns NotStored)"

text \<open>
  After a stored answer:
  \<^verbatim>\<open>
      idx += 1
      state["onboard_idx"] = idx
      done = min(idx, len(ONBOARD_KEYS))
      if idx >= len(ONBOARD_KEYS):
          state["stage"] = "idle"
          save_state(uid, state)
          try:
              validate_profile(state["profile"])
              pb = progress_bar(done, len(ONBOARD_KEYS))
              msg = f"...{pb}..." + format_plan(state["profile"])
          except Exception as e:
              msg = f"... {e}"
          reply(ev.reply_token, msg)
      else:
          pb = progress_bar(done, len(ONBOARD_KEYS))
          qkey, qtext = ONBOARD_KEYS[idx]
          save_state(uid, state)
          reply(ev.reply_token, f"{pb}\n{qtext}")
  \<close>
\<close>

definition onboarding_advance :: "session \<Rightarrow> outcome" where
  "onboarding_advance s0 =
     (let n = int (length ONBOARD_KEYS);
          idx = onboard_idx s0 + 1;
          s1 = s0\<lparr>onboard_idx := idx\<rparr>;
          done_count = min idx n
      in if n \<le> idx then
           (let s2 = s1\<lparr>stage := Idle\<rparr> in
            case res_bind (of_sum (validate_profile (profile s2))) (\<lambda>u.
                 res_bind (of_sum (progress_bar done_count n 10)) (\<lambda>pb.
                 res_bind (format_plan (profile s2)) (\<lambda>pl. Returns (pb, pl)))) of
              Raises e \<Rightarrow> Returns (s2, True, OnboardingIncomplete)
            | Unmodelled \<Rightarrow> Unmodelled
            | Returns (pb, pl) \<Rightarrow> Returns (s2, True, OnboardingComplete pb pl))
         else
           res_bind (of_sum (progress_bar done_count n 10)) (\<lambda>pb.
           res_bind (of_sum (py_index ONBOARD_KEYS idx)) (\<lambda>q.
             Returns (s1, True, NextQuestion pb q))))"

definition handle_onboarding :: "session \<Rightarrow> string \<Rightarrow> outcome" where
  "handle_onboarding s text =
     res_bind (of_sum (py_index ONBOARD_KEYS (onboard_idx s))) (\<lambda>key.
     res_bind (parse_answer key (strip text)) (\<lambda>a.
       case a of
         Rejected r \<Rightarrow> Returns (s, False, r)
       | Stored v \<Rightarrow> onboarding_advance (s\<lparr>profile := AList.update key v (profile s)\<rparr>)
       | NotStored \<Rightarrow> onboarding_advance s))"

text \<open>
  The body of the loop over the events in \<^verbatim>\<open>callback\<close>, for one text message: \<open>now\<close> is
  \<^verbatim>\<open>datetime.now()\<close>, \<open>s\<close> the state that \<^verbatim>\<open>load_state\<close> returned and \<open>message\<close> the text
  of the message. The commands are tried in the order of the source.
\<close>

definition handle_text :: "int \<Rightarrow> session \<Rightarrow> string \<Rightarrow> outcome" where
  "handle_text now s message =
     (let text = strip message; low = lower text in
      if low = ''help'' \<or> low = help_ja then Returns (s, False, HelpText)
      else if low = ''reset'' \<or> low = reset_ja then Returns (fresh_session, True, ResetDone)
      else if low = ''start'' \<or> low = start_ja then
        (let s1 = s\<lparr>stage := Onboarding, onboard_idx := 0\<rparr> in
         res_bind (of_sum (py_index ONBOARD_KEYS (onboard_idx s1))) (\<lambda>q.
         res_bind (of_sum (progress_bar 0 (int (length ONBOARD_KEYS)) 10)) (\<lambda>pb.
           Returns (s1, True, OnboardingStarted pb q))))
      else if low = ''plan'' then handle_plan s
      else if startswith low ''log '' then handle_log now s low
      else if low = ''history'' then handle_history s
      else if low = ''guide'' then handle_guide s
      else if startswith low ''profile show'' then Returns (s, False, ProfileShown (profile s))
      else if startswith low ''profile set '' then handle_profile_set s text
      else if stage s = Onboarding then handle_onboarding s text
      else Returns (s, False, CommandNotFound))"

section \<open>Properties of a stored profile\<close>

text \<open>
  What the handler guarantees of the three numeric fields of a profile: the value under
  \<^verbatim>\<open>age\<close>, if any, is an \<^verbatim>\<open>int\<close>, and the values under \<^verbatim>\<open>height_cm\<close> and \<^verbatim>\<open>weight_kg\<close>,
  if any, are \<^verbatim>\<open>float\<close>s. The second predicate adds the data model's demand that they
  are positive.
\<close>

definition int_or_absent :: "pval option \<Rightarrow> bool" where
  "int_or_absent v = (case v of None \<Rightarrow> True | Some (VInt i) \<Rightarrow> True | Some w \<Rightarrow> False)"

definition float_or_absent :: "pval option \<Rightarrow> bool" where
  "float_or_absent v = (case v of None \<Rightarrow> True | Some (VFloat x) \<Rightarrow> True | Some w \<Rightarrow> False)"

definition well_typed :: "pydict \<Rightarrow> bool" where
  "well_typed p \<longleftrightarrow>
     int_or_absent (map_of p ''age'')
     \<and> float_or_absent (map_of p ''height_cm'')
     \<and> float_or_absent (map_of p ''weight_kg'')"

definition positive_or_absent :: "pval option \<Rightarrow> bool" where
  "positive_or_absent v =
     (case v of
        None \<Rightarrow> True
      | Some (VInt i) \<Rightarrow> 0 < i
      | Some (VFloat x) \<Rightarrow> 0 < x
      | Some w \<Rightarrow> False)"

definition in_domain :: "pydict \<Rightarrow> bool" where
  "in_domain p \<longleftrightarrow>
     well_typed p
     \<and> positive_or_absent (map_of p ''age'')
     \<and> positive_or_absent (map_of p ''height_cm'')
     \<and> positive_or_absent (map_of p ''weight_kg'')"

section \<open>Rounding, capping and the shape of a plan\<close>

lemma py_round_cases: "py_round x = \<lfloor>x\<rfloor> \<or> (py_round x = \<lfloor>x\<rfloor> + 1 \<and> of_int \<lfloor>x\<rfloor> < x)"
  unfolding py_round_def Let_def by (auto; linarith)

lemma py_round_ge: "of_int a \<le> x \<Longrightarrow> a \<le> py_round x"
  using py_round_cases [of x] by (auto simp: le_floor_iff; linarith)

lemma py_round_le: "x \<le> of_int b \<Longrightarrow> py_round x \<le> b"
proof -
  assume h: "x \<le> of_int b"
  then have fb: "\<lfloor>x\<rfloor> \<le> b" by (simp add: floor_le_iff)
  show ?thesis
  proof (cases "py_round x = \<lfloor>x\<rfloor>")
    case True then show ?thesis using fb by simp
  next
    case False
    then have r: "py_round x = \<lfloor>x\<rfloor> + 1" and lt: "of_int \<lfloor>x\<rfloor> < x"
      using py_round_cases [of x] by auto
    have "\<lfloor>x\<rfloor> \<noteq> b" using lt h by auto
    then show ?thesis using r fb by simp
  qed
qed

lemma cap_daily_range: "- 750 \<le> cap_daily r \<and> cap_daily r \<le> 500"
  by (simp add: cap_daily_def)

lemma mode_preset_range:
  "- 750 \<le> x \<Longrightarrow> x \<le> 500 \<Longrightarrow> - 750 \<le> mode_preset m x \<and> mode_preset m x \<le> 500"
  by (simp add: mode_preset_def)

lemma cap_daily_note_iff:
  "1 / 1000000 < \<bar>r - cap_daily r\<bar> \<longleftrightarrow> r < - 750 - 1 / 1000000 \<or> 500 + 1 / 1000000 < r"
  unfolding cap_daily_def by (simp add: max_def min_def) linarith

lemma build_plan_Inr:
  assumes "build_plan sex age h w act mode gw dd = Inr p"
  shows "\<exists>b t. calculate_bmr sex w h age = Inr b \<and> calculate_tdee b act = Inr t
    \<and> delta_kcal p = py_round (mode_preset (lower (if mode = [] then ''recomp'' else mode)) (fst (deadline_delta w gw dd)))
    \<and> plan_notes p = snd (deadline_delta w gw dd)
    \<and> target_kcal p = max (py_round (t + mode_preset (lower (if mode = [] then ''recomp'' else mode)) (fst (deadline_delta w gw dd)))) 1200"
  using assms unfolding build_plan_def
  by (auto split: sum.splits prod.splits simp: Let_def)

section \<open>Claims about the calculations\<close>

text \<open>
  C2 (as the code has it). \<^verbatim>\<open>calculate_bmr("male", weight_kg=70, height_cm=175, age=30)\<close>
  returns 1648.75, which is \<open>10 * 70 + 6.25 * 175 - 5 * 30 + 5\<close>; the female variant
  subtracts 161 and returns 1482.75. For every weight, height and age the result is the
  Mifflin-St Jeor formula rounded to two decimals.
\<close>

theorem calculate_bmr_example:
  "calculate_bmr ''male'' 70 175 30 = Inr 1648.75
   \<and> calculate_bmr ''female'' 70 175 30 = Inr 1482.75
   \<and> (10 * 70 + 6.25 * 175 - 5 * 30 + 5 :: real) = 1648.75
   \<and> calculate_bmr ''male'' w h a = Inr (py_round2 (10 * w + 6.25 * h - 5 * of_int a + 5))
   \<and> calculate_bmr ''female'' w h a = Inr (py_round2 (10 * w + 6.25 * h - 5 * of_int a - 161))"
proof -
  have general:
    "calculate_bmr ''male'' x y z = Inr (py_round2 (10 * x + 6.25 * y - 5 * of_int z + 5))"
    "calculate_bmr ''female'' x y z = Inr (py_round2 (10 * x + 6.25 * y - 5 * of_int z - 161))"
    for x y z
    by (simp_all add: calculate_bmr_def lower_def lower_char_def)
  have male: "py_round2 (10 * 70 + 6.25 * 175 - 5 * of_int 30 + 5) = 1648.75"
    by (simp add: py_round2_def py_round_def)
  have female: "py_round2 (10 * 70 + 6.25 * 175 - 5 * of_int 30 - 161) = 1482.75"
    by (simp add: py_round2_def py_round_def)
  have "calculate_bmr ''male'' 70 175 30 = Inr 1648.75"
    unfolding general using male by simp
  moreover have "calculate_bmr ''female'' 70 175 30 = Inr 1482.75"
    unfolding general using female by simp
  moreover have "(10 * 70 + 6.25 * 175 - 5 * 30 + 5 :: real) = 1648.75"
    by simp
  ultimately show ?thesis
    using general by blast
qed

text \<open>
  C2 as the specification states it fails: the value is not 1673.75.
\<close>

theorem calculate_bmr_not_1673_75:
  "calculate_bmr ''male'' 70 175 30 \<noteq> Inr 1673.75"
  by (simp add: calculate_bmr_def lower_def lower_char_def py_round2_def py_round_def)

text \<open>
  C3 (as the code has it). For every \<^verbatim>\<open>build_plan\<close> call with a goal weight and
  \<open>deadline_days > 0\<close> that returns a plan, \<open>delta_kcal\<close> lies within \<open>[-750, 500]\<close>,
  and the advisory note is appended if and only if clamping moved the raw daily delta
  \<open>(goal_weight - weight_kg) * 7700 / deadline_days\<close> by more than \<open>1e-6\<close>, that is, if
  and only if the raw delta is below \<open>-750 - 1e-6\<close> or above \<open>500 + 1e-6\<close>.
\<close>

theorem build_plan_delta_capped:
  assumes "0 < d" and "build_plan sex age h w act mode (Some g) (Some d) = Inr p"
  shows "- 750 \<le> delta_kcal p \<and> delta_kcal p \<le> 500
     \<and> (SafetyCapNote \<in> set (plan_notes p)
          \<longleftrightarrow> 1 / 1000000 < \<bar>raw_daily g w d - cap_daily (raw_daily g w d)\<bar>)
     \<and> (SafetyCapNote \<in> set (plan_notes p)
          \<longleftrightarrow> raw_daily g w d < - 750 - 1 / 1000000 \<or> 500 + 1 / 1000000 < raw_daily g w d)"
proof -
  let ?m = "lower (if mode = [] then ''recomp'' else mode)"
  let ?r = "raw_daily g w d"
  have dd: "deadline_delta w (Some g) (Some d)
      = (cap_daily ?r, if 1 / 1000000 < \<bar>?r - cap_daily ?r\<bar> then [SafetyCapNote] else [])"
    using assms(1) by (simp add: deadline_delta_def Let_def)
  from build_plan_Inr [OF assms(2)]
  have delta: "delta_kcal p = py_round (mode_preset ?m (cap_daily ?r))"
    and ns: "plan_notes p = (if 1 / 1000000 < \<bar>?r - cap_daily ?r\<bar> then [SafetyCapNote] else [])"
    by (auto simp: dd)
  have rng: "- 750 \<le> mode_preset ?m (cap_daily ?r) \<and> mode_preset ?m (cap_daily ?r) \<le> 500"
    using cap_daily_range [of ?r] by (intro mode_preset_range) auto
  have lo: "- 750 \<le> delta_kcal p"
    unfolding delta using rng by (intro py_round_ge) simp
  have hi: "delta_kcal p \<le> 500"
    unfolding delta using rng by (intro py_round_le) simp
  have n1: "SafetyCapNote \<in> set (plan_notes p) \<longleftrightarrow> 1 / 1000000 < \<bar>?r - cap_daily ?r\<bar>"
    by (simp add: ns)
  show ?thesis
    using lo hi n1 cap_daily_note_iff [of ?r] by blast
qed

text \<open>
  The hypotheses of C3 hold for a 70 kg man who wants to reach 65 kg in 30 days: the raw
  delta is about \<open>-1283\<close> kcal a day, it is capped at \<open>-750\<close> and the note is appended.
\<close>

theorem build_plan_delta_capped_witness:
  "(0::int) < 30
   \<and> build_plan ''male'' 30 175 70 ''moderate'' ''cut'' (Some 65) (Some 30)
       = Inr \<lparr>bmr = 1648.75, tdee = 2555.56, maintenance_kcal = 2556, target_kcal = 1806,
              delta_kcal = - 750, plan_mode = ''cut'', protein_g = 140, fat_g = 42,
              carb_g = 217, plan_notes = [SafetyCapNote]\<rparr>
   \<and> raw_daily 65 70 30 < - 750 - 1 / 1000000"
proof -
  have run: "build_plan ''male'' 30 175 70 ''moderate'' ''cut'' (Some 65) (Some 30)
       = Inr \<lparr>bmr = 1648.75, tdee = 2555.56, maintenance_kcal = 2556, target_kcal = 1806,
              delta_kcal = - 750, plan_mode = ''cut'', protein_g = 140, fat_g = 42,
              carb_g = 217, plan_notes = [SafetyCapNote]\<rparr>"
    by code_simp
  have raw: "raw_daily 65 70 30 < - 750 - 1 / 1000000"
    by (simp add: raw_daily_def)
  have pos: "(0::int) < 30"
    by simp
  show ?thesis
    using build_plan_delta_capped [OF pos run] pos run raw by blast
qed

text \<open>
  C3 as the specification states it fails: with a raw delta of \<open>500.0000005\<close>, outside
  \<open>[-750, 500]\<close>, the value is capped at 500 and no note is appended.
\<close>

theorem safety_note_skipped_just_above_cap:
  "build_plan ''male'' 30 175 60 ''moderate'' ''cut'' (Some 65.000000005) (Some 77)
     = Inr \<lparr>bmr = 1548.75, tdee = 2400.56, maintenance_kcal = 2401, target_kcal = 2901,
            delta_kcal = 500, plan_mode = ''cut'', protein_g = 120, fat_g = 40,
            carb_g = 515, plan_notes = []\<rparr>
   \<and> raw_daily 65.000000005 60 77 = 500.0000005
   \<and> (500 :: real) < 500.0000005"
  by code_simp

text \<open>
  C4. For every valid input (sex male or female in any letter case, one of the five
  activity levels, any mode, any goal weight and deadline), \<^verbatim>\<open>build_plan\<close> returns a
  plan and its \<open>target_kcal\<close> is at least 1200.
\<close>

theorem build_plan_target_floor:
  assumes "lower sex = ''male'' \<or> lower sex = ''female''"
    and "activity \<in> {''sedentary'', ''light'', ''moderate'', ''active'', ''very_active''}"
  shows "\<exists>p. build_plan sex age h w activity mode gw dd = Inr p \<and> 1200 \<le> target_kcal p"
proof -
  obtain b where b: "calculate_bmr sex w h age = Inr b"
    using assms(1) by (auto simp: calculate_bmr_def Let_def)
  have "activity_factor activity \<noteq> Inl e" for e
    using assms(2) by (auto simp: activity_factor_def)
  then obtain f where "activity_factor activity = Inr f"
    by (cases "activity_factor activity") auto
  then obtain t where t: "calculate_tdee b activity = Inr t"
    by (simp add: calculate_tdee_def)
  show ?thesis
    unfolding build_plan_def by (simp add: b t Let_def split: prod.splits)
qed

text \<open>
  A valid input with an extreme negative delta: 40 kg, goal 10 kg in one day.
\<close>

theorem build_plan_target_floor_witness:
  "(lower ''female'' = ''male'' \<or> lower ''female'' = ''female'')
   \<and> ''sedentary'' \<in> {''sedentary'', ''light'', ''moderate'', ''active'', ''very_active''}
   \<and> (\<exists>p. build_plan ''female'' 30 150 40 ''sedentary'' ''cut'' (Some 10) (Some 1) = Inr p
          \<and> 1200 \<le> target_kcal p)"
proof -
  have s: "lower ''female'' = ''male'' \<or> lower ''female'' = ''female''"
    by (simp add: lower_def lower_char_def)
  have a: "''sedentary'' \<in> {''sedentary'', ''light'', ''moderate'', ''active'', ''very_active''}"
    by simp
  show ?thesis
    using s a build_plan_target_floor [OF s a, of 30 150 40 "''cut''" "Some 10" "Some 1"]
    by blast
qed
section \<open>Lemmas about dates, slices and the bar\<close>

lemma days_between_self: "days_between a a = 0"
  by (simp add: days_between_def)

lemma days_between_nonneg: "b \<le> a \<Longrightarrow> 0 \<le> days_between a b"
  by (simp add: days_between_def day_us_def pos_imp_zdiv_nonneg_iff)

lemma py_round2_zero: "py_round2 0 = 0"
  by (simp add: py_round2_def py_round_def)

lemma last_entries_drop:
  "0 < n \<Longrightarrow> last_entries h n = drop (length h - nat n) h"
  unfolding last_entries_def Let_def
  by (auto simp: max_def nat_diff_distrib' intro!: arg_cong [where f = "\<lambda>k. drop k h"])

lemma sorted_hd_le_last:
  assumes "sorted xs" and "xs \<noteq> []"
  shows "hd xs \<le> last xs"
proof (cases xs)
  case Nil
  with assms(2) show ?thesis by simp
next
  case (Cons x ys)
  then show ?thesis
    using assms(1) by (cases "ys = []") auto
qed

lemma filled_cells_range:
  assumes "0 \<le> total_count" and "0 < width" and "0 \<le> d" and "d \<le> total_count"
  shows "\<exists>f. filled_cells width d total_count = Inr f \<and> 0 \<le> f \<and> f \<le> width
           \<and> (total_count = 0 \<longrightarrow> f = 0)"
proof (cases "total_count = 0")
  case True
  then show ?thesis using assms(2) by (simp add: filled_cells_def)
next
  case False
  then have pos: "0 < total_count" using assms(1) by simp
  have f: "filled_cells width d total_count = Inr ((width * d) div total_count)"
    using False floor_divide_of_int_eq [of "width * d" total_count, where ?'a = real]
    by (simp add: filled_cells_def py_truediv_def)
  have lo: "0 \<le> (width * d) div total_count"
    using pos assms by (simp add: pos_imp_zdiv_nonneg_iff)
  have "width * d \<le> width * total_count"
    using assms by (simp add: mult_left_mono)
  from zdiv_mono1 [OF this pos]
  have hi: "(width * d) div total_count \<le> width"
    using pos by simp
  show ?thesis using f lo hi False by simp
qed

section \<open>Claims about the trend analysis and the progress bar\<close>

text \<open>
  C6 (as the code has it). \<^verbatim>\<open>summarise_history\<close> on an empty history returns the empty
  summary \<^verbatim>\<open>{"count": 0}\<close>; for every single-entry history and every window of at least
  0 days the returned summary has \<open>delta = 0\<close> and the flat trend.
\<close>

theorem summarise_history_single:
  "summarise_history [] days = CountZero
   \<and> (0 \<le> days \<longrightarrow>
        (\<exists>s. summarise_history [e] days = Summary s \<and> delta s = 0 \<and> trend s = Flat))"
  by (simp add: summarise_history_def days_between_self py_round2_zero Let_def)

text \<open>The window of 7 days that the handler uses, on one entry of 80 kg.\<close>

theorem summarise_history_single_witness:
  "summarise_history [] 7 = CountZero
   \<and> (0::int) \<le> 7
   \<and> (\<exists>s. summarise_history [\<lparr>date = 1700000000000000, weight = 80\<rparr>] 7 = Summary s
          \<and> delta s = 0 \<and> trend s = Flat)"
  using summarise_history_single [of 7 "\<lparr>date = 1700000000000000, weight = 80\<rparr>"]
  by simp

text \<open>
  C6 as the specification states it ("any window") fails: with a window of \<open>-1\<close> days the
  only entry is filtered out, since its distance 0 to the cutoff is not \<open>\<le> -1\<close>, and the
  result is the empty summary, which has neither delta nor trend.
\<close>

theorem summarise_history_single_negative_window:
  "summarise_history [\<lparr>date = 1700000000000000, weight = 80\<rparr>] (- 1) = CountZero"
  by (simp add: summarise_history_def days_between_self)

text \<open>
  C9. For every non-empty history and every window of at least 0 days,
  \<^verbatim>\<open>summarise_history\<close> returns a full summary with \<open>count \<ge> 1\<close>: the last entry is its
  own cutoff, so it always stays in the filtered window and the second empty-summary
  branch is not taken.
\<close>

theorem summarise_history_count_pos:
  assumes "hist \<noteq> []" and "0 \<le> days"
  shows "\<exists>s. summarise_history hist days = Summary s \<and> 1 \<le> count s
     \<and> last hist \<in> set (filter (\<lambda>x. days_between (date (last hist)) (date x) \<le> days) hist)"
proof -
  let ?w = "filter (\<lambda>x. days_between (date (last hist)) (date x) \<le> days) hist"
  have "last hist \<in> set hist"
    using assms(1) by simp
  then have mem: "last hist \<in> set ?w"
    using assms(2) by (simp add: days_between_self)
  from length_pos_if_in_set [OF mem] have len: "1 \<le> length ?w"
    by linarith
  then have ne: "?w \<noteq> []"
    by (metis length_0_conv not_one_le_zero)
  show ?thesis
    using assms(1) ne mem len by (simp add: summarise_history_def Let_def)
qed

text \<open>Two entries 40 days apart and a window of 0 days: the last entry is kept.\<close>

theorem summarise_history_count_pos_witness:
  "[\<lparr>date = 0, weight = 80\<rparr>, \<lparr>date = 40 * day_us, weight = 79\<rparr>] \<noteq> []
   \<and> (0::int) \<le> 0
   \<and> (\<exists>s. summarise_history [\<lparr>date = 0, weight = 80\<rparr>, \<lparr>date = 40 * day_us, weight = 79\<rparr>] 0
          = Summary s \<and> 1 \<le> count s)"
  using summarise_history_count_pos
    [of "[\<lparr>date = 0, weight = 80\<rparr>, \<lparr>date = 40 * day_us, weight = 79\<rparr>]" 0]
  by auto

text \<open>
  C7. Let \<open>l\<close> be the last \<open>recent_window\<close> entries of the history, let them number at
  least 2 and have non-decreasing timestamps, and let
  \<open>dc = (last.weight - first.weight) / max(days_between, 1)\<close>. Then the history is not
  empty and, in cut mode, \<^verbatim>\<open>suggest_after_log\<close> returns the "losing too fast" guidance
  when \<open>dc < -0.15\<close>, the "gaining" guidance when \<open>dc > 0.05\<close>, and the "good pace"
  guidance otherwise.
\<close>

theorem suggest_after_log_cut:
  assumes l: "l = drop (length hist - nat recent_window) hist"
    and len: "2 \<le> length l"
    and srt: "sorted (map date l)"
    and cut: "lower mode = ''cut''"
    and dc: "dc = (weight (last l) - weight (hd l))
                  / of_int (max (days_between (date (last l)) (date (hd l))) 1)"
  shows "hist \<noteq> []
     \<and> suggest_after_log hist mode recent_window =
         (if dc < - 0.15 then CutTooFast else if 0.05 < dc then CutGaining else CutGoodPace)"
proof -
  have ne: "hist \<noteq> []"
    using len l by auto
  have "length l \<le> nat recent_window"
    unfolding l by simp
  with len have rw: "0 < recent_window"
    by linarith
  have m: "mode \<noteq> []"
    using cut by (auto simp: lower_def)
  have le: "last_entries hist recent_window = l"
    using rw l by (simp add: last_entries_drop)
  have lne: "map date l \<noteq> []"
    using len by auto
  have "hd (map date l) \<le> last (map date l)"
    using sorted_hd_le_last [OF srt lne] .
  then have "date (hd l) \<le> date (last l)"
    using lne by (simp add: hd_map last_map)
  then have nn: "0 \<le> days_between (date (last l)) (date (hd l))"
    by (rule days_between_nonneg)
  have days: "(if days_between (date (last l)) (date (hd l)) = 0 then 1
               else days_between (date (last l)) (date (hd l)))
              = max (days_between (date (last l)) (date (hd l))) 1"
    using nn by (simp add: max_def)
  have "daily_change_of l = dc"
    using len unfolding daily_change_of_def Let_def dc days by simp
  then show ?thesis
    using ne m cut by (simp add: suggest_after_log_def le Let_def)
qed

text \<open>
  The two-point history with weights 80 and 79.0 one day apart, in cut mode with the
  default window of 7, reaches the "too fast" branch.
\<close>

theorem suggest_after_log_cut_witness:
  "2 \<le> length [\<lparr>date = 0, weight = 80\<rparr>, \<lparr>date = day_us, weight = 79.0\<rparr>]
   \<and> sorted (map date [\<lparr>date = 0, weight = 80\<rparr>, \<lparr>date = day_us, weight = 79.0\<rparr>])
   \<and> lower ''cut'' = ''cut''
   \<and> days_between day_us 0 = 1
   \<and> suggest_after_log [\<lparr>date = 0, weight = 80\<rparr>, \<lparr>date = day_us, weight = 79.0\<rparr>] ''cut'' 7
       = CutTooFast"
proof -
  let ?h = "[\<lparr>date = 0, weight = 80\<rparr>, \<lparr>date = day_us, weight = 79.0\<rparr>]"
  have b: "?h = drop (length ?h - nat 7) ?h" by simp
  have c: "2 \<le> length ?h" by simp
  have d: "sorted (map date ?h)" by (simp add: day_us_def)
  have e: "lower ''cut'' = ''cut''" by (simp add: lower_def lower_char_def)
  have f: "days_between day_us 0 = 1" by (simp add: days_between_def day_us_def)
  have g: "(weight (last ?h) - weight (hd ?h))
            / of_int (max (days_between (date (last ?h)) (date (hd ?h))) 1) = - 1"
    by (simp add: f)
  show ?thesis
    using suggest_after_log_cut [OF b c d e g [symmetric]] c d e f by simp
qed

text \<open>
  C10. For \<open>total \<ge> 0\<close> and \<open>width > 0\<close> \<^verbatim>\<open>progress_bar\<close> returns a bar (no exception, in
  particular no division by zero): the count it shows is \<open>done\<close> clamped into
  \<open>[0, total]\<close>, the number of filled cells is between 0 and \<open>width\<close>, filled and empty
  cells sum to \<open>width\<close>, and \<open>total = 0\<close> gives no filled cell.
\<close>

theorem progress_bar_total:
  assumes "0 \<le> total_count" and "0 < width"
  shows "\<exists>b. progress_bar done_count total_count width = Inr b
     \<and> shown_done b = max 0 (min done_count total_count)
     \<and> 0 \<le> shown_done b \<and> shown_done b \<le> total_count
     \<and> int (count_list (cells b) Filled) \<le> width
     \<and> int (count_list (cells b) Filled) + int (count_list (cells b) Blank) = width
     \<and> int (length (cells b)) = width
     \<and> (total_count = 0 \<longrightarrow> count_list (cells b) Filled = 0)"
proof -
  let ?d = "max 0 (min done_count total_count)"
  have d: "0 \<le> ?d" "?d \<le> total_count"
    using assms(1) by auto
  from filled_cells_range [OF assms d]
  obtain f where f: "filled_cells width ?d total_count = Inr f" "0 \<le> f" "f \<le> width"
      "total_count = 0 \<longrightarrow> f = 0"
    by blast
  have cnt: "count_list (replicate n x) x = n" for n and x :: cell
    by (induction n) auto
  show ?thesis
    using f d unfolding progress_bar_def Let_def
    by (simp add: cnt)
qed

text \<open>A bar for \<open>total = 0\<close>, and the bar for 3 of 8 at the default width 10.\<close>

theorem progress_bar_total_witness:
  "(0::int) \<le> 0 \<and> (0::int) < 10
   \<and> progress_bar 5 0 10 = Inr \<lparr>cells = replicate 10 Blank, shown_done = 0, shown_total = 0\<rparr>
   \<and> (0::int) \<le> 8
   \<and> progress_bar 3 8 10
       = Inr \<lparr>cells = replicate 3 Filled @ replicate 7 Blank, shown_done = 3, shown_total = 8\<rparr>"
proof -
  have a: "progress_bar 5 0 10 = Inr \<lparr>cells = replicate 10 Blank, shown_done = 0, shown_total = 0\<rparr>"
    by code_simp
  have b: "progress_bar 3 8 10
       = Inr \<lparr>cells = replicate 3 Filled @ replicate 7 Blank, shown_done = 3, shown_total = 8\<rparr>"
    by code_simp
  have z: "(0::int) \<le> 0" and w: "(0::int) < 10" by simp_all
  show ?thesis
    using progress_bar_total [OF z w, of 5] a b by simp
qed

section \<open>Lemmas about the handler\<close>

lemma res_bind_Returns:
  "res_bind m f = Returns y \<longleftrightarrow> (\<exists>x. m = Returns x \<and> f x = Returns y)"
  by (cases m) (simp_all add: res_bind_def)

lemma res_bind_Raises:
  "res_bind m f = Raises e \<longleftrightarrow> m = Raises e \<or> (\<exists>x. m = Returns x \<and> f x = Raises e)"
  by (cases m) (simp_all add: res_bind_def)

lemma of_sum_Returns: "of_sum r = Returns x \<longleftrightarrow> r = Inr x"
  by (cases r) (simp_all add: of_sum_def)

lemma float_res_Returns: "float_res f = Returns x \<longleftrightarrow> f = FloatValue x"
  by (cases f) (simp_all add: float_res_def)

lemma map_of_update:
  "map_of (AList.update key v p) k = (if k = key then Some v else map_of p k)"
  by (simp add: update_conv')

lemma well_typed_update:
  assumes "well_typed p"
    and "key = ''age'' \<longrightarrow> (\<exists>i. v = VInt i)"
    and "key = ''height_cm'' \<or> key = ''weight_kg'' \<longrightarrow> (\<exists>x. v = VFloat x)"
  shows "well_typed (AList.update key v p)"
proof -
  have a: "int_or_absent (map_of (AList.update key v p) ''age'')"
  proof (cases "key = ''age''")
    case True
    with assms(2) obtain i where "v = VInt i" by blast
    with True show ?thesis by (simp add: map_of_update int_or_absent_def)
  next
    case False
    then have "map_of (AList.update key v p) ''age'' = map_of p ''age''"
      by (simp only: map_of_update) metis
    with assms(1) show ?thesis by (simp only: well_typed_def)
  qed
  have f: "float_or_absent (map_of (AList.update key v p) k)"
    if k: "k = ''height_cm'' \<or> k = ''weight_kg''" and old: "float_or_absent (map_of p k)" for k
  proof (cases "key = k")
    case True
    with assms(3) k obtain x where "v = VFloat x" by blast
    with True show ?thesis by (simp add: map_of_update float_or_absent_def)
  next
    case False
    then have "map_of (AList.update key v p) k = map_of p k"
      by (simp only: map_of_update) metis
    with old show ?thesis by (simp only:)
  qed
  from assms(1) have "float_or_absent (map_of p ''height_cm'')" "float_or_absent (map_of p ''weight_kg'')"
    by (simp_all only: well_typed_def)
  then have "float_or_absent (map_of (AList.update key v p) ''height_cm'')"
    "float_or_absent (map_of (AList.update key v p) ''weight_kg'')"
    by (blast intro: f)+
  with a show ?thesis
    by (simp only: well_typed_def) 
qed

lemma coerce_typed:
  assumes "coerce key val = Returns v"
  shows "(key = ''age'' \<longrightarrow> (\<exists>i. v = VInt i))
     \<and> (key = ''height_cm'' \<or> key = ''weight_kg'' \<longrightarrow> (\<exists>x. v = VFloat x))"
proof (intro conjI impI)
  assume "key = ''age''"
  with assms show "\<exists>i. v = VInt i"
    by (auto simp: coerce_def split: option.splits)
next
  assume k: "key = ''height_cm'' \<or> key = ''weight_kg''"
  then have "key \<noteq> ''age''" by auto
  with k assms have "res_bind (float_res (py_float val)) (\<lambda>x. Returns (VFloat x)) = Returns v"
    by (auto simp: coerce_def)
  then show "\<exists>x. v = VFloat x"
    by (auto simp: res_bind_Returns)
qed

lemma parse_answer_typed:
  assumes "parse_answer key val = Returns (Stored v)"
  shows "(key = ''age'' \<longrightarrow> (\<exists>i. v = VInt i))
     \<and> (key = ''height_cm'' \<or> key = ''weight_kg'' \<longrightarrow> (\<exists>x. v = VFloat x))"
proof (intro conjI impI)
  assume "key = ''age''"
  with assms show "\<exists>i. v = VInt i"
    by (auto simp: parse_answer_def split: option.splits)
next
  assume k: "key = ''height_cm'' \<or> key = ''weight_kg''"
  then have "key \<noteq> ''age''" "key \<noteq> ''sex''" by auto
  with k assms
  have "res_bind (float_res (py_float val)) (\<lambda>x. Returns (Stored (VFloat x))) = Returns (Stored v)"
    by (auto simp: parse_answer_def)
  then show "\<exists>x. v = VFloat x"
    by (auto simp: res_bind_Returns)
qed

lemma onboarding_advance_profile:
  assumes "onboarding_advance s0 = Returns (s', saved, r)"
  shows "profile s' = profile s0"
proof (cases "int (length ONBOARD_KEYS) \<le> onboard_idx s0 + 1")
  case True
  with assms show ?thesis
    unfolding onboarding_advance_def Let_def
    by (auto split: res.splits prod.splits)
next
  case False
  with assms show ?thesis
    unfolding onboarding_advance_def Let_def
    by (auto simp: res_bind_Returns)
qed

lemma handle_onboarding_typed:
  assumes "well_typed (profile s)" and "handle_onboarding s text = Returns (s', saved, r)"
  shows "well_typed (profile s')"
proof -
  from assms(2) obtain key where
      "res_bind (parse_answer key (strip text)) (\<lambda>a.
         case a of
           Rejected q \<Rightarrow> Returns (s, False, q)
         | Stored v \<Rightarrow> onboarding_advance (s\<lparr>profile := AList.update key v (profile s)\<rparr>)
         | NotStored \<Rightarrow> onboarding_advance s) = Returns (s', saved, r)"
    unfolding handle_onboarding_def res_bind_Returns by blast
  then obtain a where
      a: "parse_answer key (strip text) = Returns a"
      and k: "(case a of
                 Rejected q \<Rightarrow> Returns (s, False, q)
               | Stored v \<Rightarrow> onboarding_advance (s\<lparr>profile := AList.update key v (profile s)\<rparr>)
               | NotStored \<Rightarrow> onboarding_advance s) = Returns (s', saved, r)"
    unfolding res_bind_Returns by blast
  show ?thesis
  proof (cases a)
    case (Rejected q)
    with k assms(1) show ?thesis by simp
  next
    case (Stored v)
    with k have "onboarding_advance (s\<lparr>profile := AList.update key v (profile s)\<rparr>)
        = Returns (s', saved, r)"
      by simp
    from onboarding_advance_profile [OF this]
    have p: "profile s' = AList.update key v (profile s)"
      by simp
    from a Stored have "parse_answer key (strip text) = Returns (Stored v)"
      by simp
    from parse_answer_typed [OF this]
    have "well_typed (AList.update key v (profile s))"
      by (intro well_typed_update [OF assms(1)]) blast+
    with p show ?thesis by simp
  next
    case NotStored
    with k have "onboarding_advance s = Returns (s', saved, r)"
      by simp
    from onboarding_advance_profile [OF this] assms(1) show ?thesis by simp
  qed
qed

lemma handle_profile_set_cases:
  assumes "handle_profile_set s text = Returns (s', saved, r)"
  shows "(s' = s \<and> saved = False \<and> r = ProfileUsage)
     \<or> (\<exists>key val v. py_index (split text) 2 = Inr key \<and> py_index (split text) 3 = Inr val
           \<and> coerce key val = Returns v
           \<and> s' = s\<lparr>profile := AList.update key v (profile s)\<rparr> \<and> saved = True
           \<and> r = ProfileUpdated key v)"
proof -
  let ?m = "res_bind (of_sum (py_index (split text) 2)) (\<lambda>key.
           res_bind (of_sum (py_index (split text) 3)) (\<lambda>val.
           res_bind (coerce key val) (\<lambda>v. Returns (key, v))))"
  show ?thesis
  proof (cases ?m)
    case (Raises e)
    with assms show ?thesis
      by (simp add: handle_profile_set_def Let_def)
  next
    case Unmodelled
    with assms show ?thesis
      by (simp add: handle_profile_set_def Let_def)
  next
    case (Returns kv)
    obtain key v where kv: "kv = (key, v)" by (cases kv)
    from Returns kv obtain val where
        "py_index (split text) 2 = Inr key" "py_index (split text) 3 = Inr val"
        "coerce key val = Returns v"
      unfolding res_bind_Returns of_sum_Returns by auto
    moreover from assms Returns kv
    have "s' = s\<lparr>profile := AList.update key v (profile s)\<rparr> \<and> saved = True
        \<and> r = ProfileUpdated key v"
      by (simp add: handle_profile_set_def Let_def)
    ultimately show ?thesis by blast
  qed
qed

lemma handle_profile_set_typed:
  assumes "well_typed (profile s)" and "handle_profile_set s text = Returns (s', saved, r)"
  shows "well_typed (profile s')"
  using handle_profile_set_cases [OF assms(2)]
proof (elim disjE exE conjE)
  assume "s' = s"
  with assms(1) show ?thesis by simp
next
  fix key val v
  assume c: "coerce key val = Returns v"
    and s': "s' = s\<lparr>profile := AList.update key v (profile s)\<rparr>"
  from coerce_typed [OF c] have "well_typed (AList.update key v (profile s))"
    by (intro well_typed_update [OF assms(1)]) blast+
  with s' show ?thesis by simp
qed

lemma handle_plan_profile:
  "handle_plan s = Returns (s', saved, r) \<Longrightarrow> profile s' = profile s"
  by (auto simp: handle_plan_def split: sum.splits res.splits)

lemma handle_log_profile:
  "handle_log now s low = Returns (s', saved, r) \<Longrightarrow> profile s' = profile s"
  by (auto simp: handle_log_def Let_def split: res.splits)

lemma handle_history_profile:
  "handle_history s = Returns (s', saved, r) \<Longrightarrow> profile s' = profile s"
  by (auto simp: handle_history_def split: if_splits)

lemma handle_guide_profile:
  "handle_guide s = Returns (s', saved, r) \<Longrightarrow> profile s' = profile s"
  by (auto simp: handle_guide_def res_bind_Returns split: if_splits option.splits)

lemma start_profile:
  assumes "res_bind (of_sum (py_index ONBOARD_KEYS (onboard_idx s1))) (\<lambda>q.
           res_bind (of_sum (progress_bar 0 (int (length ONBOARD_KEYS)) 10)) (\<lambda>pb.
             Returns (s1, True, OnboardingStarted pb q))) = Returns (s', saved, r)"
  shows "s' = s1"
  using assms by (auto simp: res_bind_Returns)

lemma handle_text_cases:
  "handle_text now s message = Returns (s, False, HelpText)
   \<or> handle_text now s message = Returns (fresh_session, True, ResetDone)
   \<or> handle_text now s message =
        res_bind (of_sum (py_index ONBOARD_KEYS (onboard_idx (s\<lparr>stage := Onboarding, onboard_idx := 0\<rparr>)))) (\<lambda>q.
        res_bind (of_sum (progress_bar 0 (int (length ONBOARD_KEYS)) 10)) (\<lambda>pb.
          Returns (s\<lparr>stage := Onboarding, onboard_idx := 0\<rparr>, True, OnboardingStarted pb q)))
   \<or> handle_text now s message = handle_plan s
   \<or> handle_text now s message = handle_log now s (lower (strip message))
   \<or> handle_text now s message = handle_history s
   \<or> handle_text now s message = handle_guide s
   \<or> handle_text now s message = Returns (s, False, ProfileShown (profile s))
   \<or> handle_text now s message = handle_profile_set s (strip message)
   \<or> handle_text now s message = handle_onboarding s (strip message)
   \<or> handle_text now s message = Returns (s, False, CommandNotFound)"
  unfolding handle_text_def Let_def by simp

lemma startswith_both:
  assumes "startswith s p" and "startswith s q" and "length q \<le> length p"
  shows "startswith p q"
proof -
  have "take (length q) p = take (length q) (take (length p) s)"
    using assms(1) by (simp add: startswith_def)
  also have "\<dots> = take (length q) s"
    using assms(3) by (simp add: min.absorb1)
  finally show ?thesis
    using assms(2) by (simp add: startswith_def)
qed

lemma dispatch_profile_set:
  assumes "startswith (lower (strip message)) ''profile set ''"
  shows "handle_text now s message = handle_profile_set s (strip message)"
proof -
  let ?low = "lower (strip message)"
  have ne: "?low \<noteq> c" if "\<not> startswith c ''profile set ''" for c
    using assms that by auto
  have 1: "?low \<noteq> ''help''" "?low \<noteq> help_ja" "?low \<noteq> ''reset''" "?low \<noteq> reset_ja"
      "?low \<noteq> ''start''" "?low \<noteq> start_ja" "?low \<noteq> ''plan''" "?low \<noteq> ''history''"
      "?low \<noteq> ''guide''"
    by (rule ne, simp add: startswith_def help_ja_def reset_ja_def start_ja_def)+
  have "\<not> startswith ''profile set '' ''log ''"
    by (simp add: startswith_def)
  then have 2: "\<not> startswith ?low ''log ''"
    using startswith_both [OF assms, of "''log ''"] by auto
  have "\<not> startswith ''profile set '' ''profile show''"
    by (simp add: startswith_def)
  then have 3: "\<not> startswith ?low ''profile show''"
    using startswith_both [OF assms, of "''profile show''"] by auto
  show ?thesis
    unfolding handle_text_def Let_def using 1 2 3 assms by simp
qed

lemma py_index_nat:
  "py_index xs (int k) = (if k < length xs then Inr (xs ! k) else Inl IndexError)"
  by (simp add: py_index_def Let_def)

section \<open>Claims about the message handler\<close>

text \<open>
  C1 (what the code does). In stage onboarding, an answer that does not parse as a
  number for one of the numeric fields \<^verbatim>\<open>age\<close>, \<^verbatim>\<open>height_cm\<close>, \<^verbatim>\<open>weight_kg\<close>,
  \<^verbatim>\<open>goal_weight\<close>, \<^verbatim>\<open>deadline_days\<close> makes \<^verbatim>\<open>int\<close> or \<^verbatim>\<open>float\<close> raise \<^verbatim>\<open>ValueError\<close>;
  the onboarding block has no \<^verbatim>\<open>try\<close>, so the exception leaves the handler: no reply is
  sent and nothing is saved. An invalid answer for \<^verbatim>\<open>sex\<close> is answered with a new
  prompt and leaves the session as it was, as the claim demands of every field.
\<close>

theorem numeric_answer_error_escapes:
  "handle_text 0 \<lparr>profile = [(''sex'', VStr ''male'')], history = [], stage = Onboarding,
                    onboard_idx = 1\<rparr> ''abc'' = Raises ValueError
   \<and> handle_text 0 \<lparr>profile = [], history = [], stage = Onboarding, onboard_idx = 2\<rparr> ''tall''
       = Raises ValueError
   \<and> handle_text 0 \<lparr>profile = [], history = [], stage = Onboarding, onboard_idx = 3\<rparr> ''65kg''
       = Raises ValueError
   \<and> handle_text 0 \<lparr>profile = [], history = [], stage = Onboarding, onboard_idx = 6\<rparr> ''none''
       = Raises ValueError
   \<and> handle_text 0 \<lparr>profile = [], history = [], stage = Onboarding, onboard_idx = 7\<rparr> ''1.5''
       = Raises ValueError
   \<and> handle_text 0 \<lparr>profile = [], history = [], stage = Onboarding, onboard_idx = 0\<rparr> ''other''
       = Returns (\<lparr>profile = [], history = [], stage = Onboarding, onboard_idx = 0\<rparr>,
                  False, RepromptSex)"
  by code_simp

text \<open>
  C5 (as the code has it). Every profile that the handler returns, from a profile whose
  \<^verbatim>\<open>age\<close> is an integer and whose \<^verbatim>\<open>height_cm\<close> and \<^verbatim>\<open>weight_kg\<close> are floats (each
  where present), again has an integer \<^verbatim>\<open>age\<close> and float \<^verbatim>\<open>height_cm\<close> and
  \<^verbatim>\<open>weight_kg\<close>; the empty profile of a fresh session is such a profile. This covers
  onboarding answers, \<^verbatim>\<open>profile set\<close> and every other command. The sign of the values
  is not checked anywhere.
\<close>

theorem handler_keeps_profile_typed:
  assumes "well_typed (profile s)" and "handle_text now s message = Returns (s', saved, r)"
  shows "well_typed (profile s') \<and> well_typed (profile fresh_session)"
proof -
  have fresh: "well_typed (profile fresh_session)"
    by (simp add: fresh_session_def well_typed_def int_or_absent_def float_or_absent_def)
  have "well_typed (profile s')"
    using handle_text_cases [of now s message]
  proof (elim disjE)
    assume "handle_text now s message =
        res_bind (of_sum (py_index ONBOARD_KEYS (onboard_idx (s\<lparr>stage := Onboarding, onboard_idx := 0\<rparr>)))) (\<lambda>q.
        res_bind (of_sum (progress_bar 0 (int (length ONBOARD_KEYS)) 10)) (\<lambda>pb.
          Returns (s\<lparr>stage := Onboarding, onboard_idx := 0\<rparr>, True, OnboardingStarted pb q)))"
    with assms(2) have "s' = s\<lparr>stage := Onboarding, onboard_idx := 0\<rparr>"
      using start_profile by metis
    with assms(1) show ?thesis by simp
  next
    assume "handle_text now s message = handle_profile_set s (strip message)"
    with assms show ?thesis using handle_profile_set_typed by metis
  next
    assume "handle_text now s message = handle_onboarding s (strip message)"
    with assms show ?thesis using handle_onboarding_typed by metis
  next
    assume "handle_text now s message = handle_plan s"
    with assms show ?thesis using handle_plan_profile by metis
  next
    assume "handle_text now s message = handle_log now s (lower (strip message))"
    with assms show ?thesis using handle_log_profile by metis
  next
    assume "handle_text now s message = handle_history s"
    with assms show ?thesis using handle_history_profile by metis
  next
    assume "handle_text now s message = handle_guide s"
    with assms show ?thesis using handle_guide_profile by metis
  qed (use assms fresh in auto)
  with fresh show ?thesis by simp
qed

text \<open>The answer \<^verbatim>\<open>30\<close> to the question for the age.\<close>

theorem handler_keeps_profile_typed_witness:
  "well_typed (profile \<lparr>profile = [(''sex'', VStr ''male'')], history = [], stage = Onboarding,
                          onboard_idx = 1\<rparr>)
   \<and> handle_text 0 \<lparr>profile = [(''sex'', VStr ''male'')], history = [], stage = Onboarding,
                      onboard_idx = 1\<rparr> ''30''
       = Returns (\<lparr>profile = [(''sex'', VStr ''male''), (''age'', VInt 30)], history = [],
                   stage = Onboarding, onboard_idx = 2\<rparr>, True,
                  NextQuestion \<lparr>cells = replicate 2 Filled @ replicate 8 Blank, shown_done = 2,
                                 shown_total = 8\<rparr> ''height_cm'')
   \<and> well_typed [(''sex'', VStr ''male''), (''age'', VInt 30)]"
proof -
  have t: "well_typed (profile \<lparr>profile = [(''sex'', VStr ''male'')], history = [],
                          stage = Onboarding, onboard_idx = 1\<rparr>)"
    by code_simp
  have run: "handle_text 0 \<lparr>profile = [(''sex'', VStr ''male'')], history = [], stage = Onboarding,
                      onboard_idx = 1\<rparr> ''30''
       = Returns (\<lparr>profile = [(''sex'', VStr ''male''), (''age'', VInt 30)], history = [],
                   stage = Onboarding, onboard_idx = 2\<rparr>, True,
                  NextQuestion \<lparr>cells = replicate 2 Filled @ replicate 8 Blank, shown_done = 2,
                                 shown_total = 8\<rparr> ''height_cm'')"
    by code_simp
  from handler_keeps_profile_typed [OF t run] t run show ?thesis
    by simp
qed

text \<open>
  C5 as the specification states it fails: the answer \<^verbatim>\<open>-5\<close> to the question for the
  age is stored as the age \<open>-5\<close>, and \<^verbatim>\<open>profile set weight_kg 0\<close> stores the weight
  \<open>0.0\<close>; both profiles leave the data model's domain of positive values.
\<close>

theorem handler_stores_nonpositive_values:
  "in_domain (profile \<lparr>profile = [(''sex'', VStr ''male'')], history = [], stage = Onboarding,
                         onboard_idx = 1\<rparr>)
   \<and> handle_text 0 \<lparr>profile = [(''sex'', VStr ''male'')], history = [], stage = Onboarding,
                      onboard_idx = 1\<rparr> ''-5''
       = Returns (\<lparr>profile = [(''sex'', VStr ''male''), (''age'', VInt (- 5))], history = [],
                   stage = Onboarding, onboard_idx = 2\<rparr>, True,
                  NextQuestion \<lparr>cells = replicate 2 Filled @ replicate 8 Blank, shown_done = 2,
                                 shown_total = 8\<rparr> ''height_cm'')
   \<and> \<not> in_domain [(''sex'', VStr ''male''), (''age'', VInt (- 5))]
   \<and> in_domain (profile fresh_session)
   \<and> handle_text 0 fresh_session ''profile set weight_kg 0''
       = Returns (\<lparr>profile = [(''weight_kg'', VFloat 0)], history = [], stage = Idle,
                   onboard_idx = 0\<rparr>, True, ProfileUpdated ''weight_kg'' (VFloat 0))
   \<and> \<not> in_domain [(''weight_kg'', VFloat 0)]"
  by code_simp

text \<open>
  C8 (as the code has it). For every session and every message whose trimmed,
  lower-cased text starts with \<^verbatim>\<open>"profile set "\<close> (so that a key token is present) and
  that is malformed, because fewer than four tokens are given or because the value fails
  the coercion of its key (\<^verbatim>\<open>age\<close> to an integer, \<^verbatim>\<open>height_cm\<close>, \<^verbatim>\<open>weight_kg\<close>,
  \<^verbatim>\<open>goal_weight\<close> to a float), the handler replies with the usage hint, the session is
  unchanged and nothing is saved.
\<close>

theorem profile_set_malformed_no_change:
  assumes "startswith (lower (strip message)) ''profile set ''"
    and "parts = split (strip message)"
    and "length parts < 4
       \<or> (4 \<le> length parts \<and> parts ! 2 = ''age'' \<and> py_int (parts ! 3) = None)
       \<or> (4 \<le> length parts
           \<and> (parts ! 2 = ''height_cm'' \<or> parts ! 2 = ''weight_kg'' \<or> parts ! 2 = ''goal_weight'')
           \<and> py_float (parts ! 3) = FloatError)"
  shows "handle_text now s message = Returns (s, False, ProfileUsage)"
proof -
  let ?m = "res_bind (of_sum (py_index parts 2)) (\<lambda>key.
           res_bind (of_sum (py_index parts 3)) (\<lambda>val.
           res_bind (coerce key val) (\<lambda>v. Returns (key, v))))"
  have i2: "py_index parts 2 = (if 2 < length parts then Inr (parts ! 2) else Inl IndexError)"
    using py_index_nat [of parts 2] by simp
  have i3: "py_index parts 3 = (if 3 < length parts then Inr (parts ! 3) else Inl IndexError)"
    using py_index_nat [of parts 3] by simp
  from assms(3) consider
      (short) "length parts < 4"
    | (age) "4 \<le> length parts" "parts ! 2 = ''age''" "py_int (parts ! 3) = None"
    | (float) "4 \<le> length parts" "py_float (parts ! 3) = FloatError"
        "parts ! 2 = ''height_cm'' \<or> parts ! 2 = ''weight_kg'' \<or> parts ! 2 = ''goal_weight''"
    by argo
  then have "\<exists>e. ?m = Raises e"
  proof cases
    case short
    then show ?thesis
      by (cases "2 < length parts") (simp_all add: i2 i3 res_bind_def of_sum_def)
  next
    case age
    then show ?thesis
      by (simp add: i2 i3 res_bind_def of_sum_def coerce_def)
  next
    case float
    from float(3) have "coerce (parts ! 2) (parts ! 3) = Raises ValueError"
      using float(2) by (auto simp: coerce_def float_res_def res_bind_def)
    with float(1) show ?thesis
      by (simp add: i2 i3 res_bind_def of_sum_def)
  qed
  then obtain e where "?m = Raises e" ..
  then have "handle_profile_set s (strip message) = Returns (s, False, ProfileUsage)"
    unfolding handle_profile_set_def Let_def assms(2) [symmetric] by simp
  with dispatch_profile_set [OF assms(1)] show ?thesis by simp
qed

text \<open>
  A value that is not an integer for \<^verbatim>\<open>age\<close>, and a missing value token.
\<close>

theorem profile_set_malformed_no_change_witness:
  "startswith (lower (strip ''Profile set age abc'')) ''profile set ''
   \<and> split (strip ''Profile set age abc'') = [''Profile'', ''set'', ''age'', ''abc'']
   \<and> py_int ''abc'' = None
   \<and> handle_text 0 fresh_session ''Profile set age abc'' = Returns (fresh_session, False, ProfileUsage)
   \<and> split (strip ''profile set goal_weight'') = [''profile'', ''set'', ''goal_weight'']
   \<and> handle_text 0 fresh_session ''profile set goal_weight''
       = Returns (fresh_session, False, ProfileUsage)"
proof -
  have a: "startswith (lower (strip ''Profile set age abc'')) ''profile set ''"
    by code_simp
  have b: "split (strip ''Profile set age abc'') = [''Profile'', ''set'', ''age'', ''abc'']"
    by code_simp
  have c: "py_int ''abc'' = None"
    by code_simp
  have d: "startswith (lower (strip ''profile set goal_weight'')) ''profile set ''"
    by code_simp
  have e: "split (strip ''profile set goal_weight'') = [''profile'', ''set'', ''goal_weight'']"
    by code_simp
  have 1: "handle_text 0 fresh_session ''Profile set age abc''
      = Returns (fresh_session, False, ProfileUsage)"
    using c by (intro profile_set_malformed_no_change [OF a b [symmetric]]) simp
  have 2: "handle_text 0 fresh_session ''profile set goal_weight''
      = Returns (fresh_session, False, ProfileUsage)"
    by (intro profile_set_malformed_no_change [OF d e [symmetric]]) simp
  from a b c e 1 2 show ?thesis by blast
qed

text \<open>
  C8 as the specification states it fails for a missing key token: the text is trimmed
  before the test \<^verbatim>\<open>low.startswith("profile set ")\<close>, so the message \<^verbatim>\<open>profile set\<close>
  never reaches the \<^verbatim>\<open>profile set\<close> block. In stage idle the reply is the "command not
  found" notice, in stage onboarding the message is taken as the answer to the current
  question; neither reply is the usage hint.
\<close>

theorem bare_profile_set_not_dispatched:
  "handle_text 0 fresh_session ''profile set'' = Returns (fresh_session, False, CommandNotFound)
   \<and> handle_text 0 \<lparr>profile = [], history = [], stage = Onboarding, onboard_idx = 0\<rparr>
         ''profile set''
       = Returns (\<lparr>profile = [], history = [], stage = Onboarding, onboard_idx = 0\<rparr>,
                  False, RepromptSex)
   \<and> CommandNotFound \<noteq> ProfileUsage \<and> RepromptSex \<noteq> ProfileUsage"
  by code_simp


end
